theory Spec2Isabelle
  imports Main "HOL-Library.Word"
begin

section \<open>Shadow view mutations\<close>

text \<open>
  \<^verbatim>\<open>ABI35_0_0ShadowViewMutation.cpp\<close> builds values of the struct
  \<^verbatim>\<open>ShadowViewMutation\<close> with designated initialisers. The struct has a type tag,
  three shadow views and an \<^verbatim>\<open>int\<close> index (a 32-bit word, read signed).
  The type \<^verbatim>\<open>ShadowView\<close> is declared in a header that is not part of the sources at hand, so it is the type
  parameter \<open>'v\<close> here, and the value a field of that type has when the initialiser
  list leaves it out (the default-constructed \<^verbatim>\<open>ShadowView\<close>) is the first
  argument \<open>dflt\<close> of every factory.
\<close>

datatype Type = Create | Delete | Insert | Remove | Update

record 'v ShadowViewMutation =
  type :: Type
  parentShadowView :: 'v
  oldChildShadowView :: 'v
  newChildShadowView :: 'v
  index :: "32 word"

definition CreateMutation :: "'v \<Rightarrow> 'v \<Rightarrow> 'v ShadowViewMutation" where
  "CreateMutation dflt shadowView =
     \<lparr>type = Create, parentShadowView = dflt, oldChildShadowView = dflt,
      newChildShadowView = shadowView, index = - 1\<rparr>"

definition DeleteMutation :: "'v \<Rightarrow> 'v \<Rightarrow> 'v ShadowViewMutation" where
  "DeleteMutation dflt shadowView =
     \<lparr>type = Delete, parentShadowView = dflt, oldChildShadowView = shadowView,
      newChildShadowView = dflt, index = - 1\<rparr>"

definition InsertMutation ::
  "'v \<Rightarrow> 'v \<Rightarrow> 'v \<Rightarrow> 32 word \<Rightarrow> 'v ShadowViewMutation" where
  "InsertMutation dflt parentShadowView' childShadowView index' =
     \<lparr>type = Insert, parentShadowView = parentShadowView', oldChildShadowView = dflt,
      newChildShadowView = childShadowView, index = index'\<rparr>"

definition RemoveMutation ::
  "'v \<Rightarrow> 'v \<Rightarrow> 'v \<Rightarrow> 32 word \<Rightarrow> 'v ShadowViewMutation" where
  "RemoveMutation dflt parentShadowView' childShadowView index' =
     \<lparr>type = Remove, parentShadowView = parentShadowView',
      oldChildShadowView = childShadowView, newChildShadowView = dflt, index = index'\<rparr>"

definition UpdateMutation ::
  "'v \<Rightarrow> 'v \<Rightarrow> 'v \<Rightarrow> 'v \<Rightarrow> 32 word \<Rightarrow> 'v ShadowViewMutation" where
  "UpdateMutation dflt parentShadowView' oldChildShadowView' newChildShadowView' index' =
     \<lparr>type = Update, parentShadowView = parentShadowView',
      oldChildShadowView = oldChildShadowView', newChildShadowView = newChildShadowView',
      index = index'\<rparr>"

section \<open>Typed array kinds\<close>

text \<open>
  \<^verbatim>\<open>TypedArrayApi.h\<close>: the enum \<^verbatim>\<open>TypedArrayKind\<close> and the two private
  static functions of \<^verbatim>\<open>TypedArrayBase\<close> that translate between a kind and the
  name of its JavaScript constructor. \<^verbatim>\<open>getTypedArrayKindForName\<close> throws
  \<^verbatim>\<open>std::runtime_error("unknown type")\<close> when no comparison matches; the throw is
  the \<open>Inl\<close> branch of the result.
\<close>

datatype TypedArrayKind =
  Int8Array | Int16Array | Int32Array | Uint8Array | Uint8ClampedArray
  | Uint16Array | Uint32Array | Float32Array | Float64Array

datatype runtime_error = RuntimeError string

definition getTypedArrayConstructorName :: "TypedArrayKind \<Rightarrow> string" where
  "getTypedArrayConstructorName kind =
     (case kind of
        Int8Array \<Rightarrow> ''Int8Array''
      | Int16Array \<Rightarrow> ''Int16Array''
      | Int32Array \<Rightarrow> ''Int32Array''
      | Uint8Array \<Rightarrow> ''Uint8Array''
      | Uint8ClampedArray \<Rightarrow> ''Uint8ClampedArray''
      | Uint16Array \<Rightarrow> ''Uint16Array''
      | Uint32Array \<Rightarrow> ''Uint32Array''
      | Float32Array \<Rightarrow> ''Float32Array''
      | Float64Array \<Rightarrow> ''Float64Array'')"

definition getTypedArrayKindForName :: "string \<Rightarrow> runtime_error + TypedArrayKind" where
  "getTypedArrayKindForName name =
     (if name = ''Int8Array'' then Inr Int8Array
      else if name = ''Int16Array'' then Inr Int16Array
      else if name = ''Int32Array'' then Inr Int32Array
      else if name = ''Uint8Array'' then Inr Uint8Array
      else if name = ''Uint8ClampedArray'' then Inr Uint8ClampedArray
      else if name = ''Uint16Array'' then Inr Uint16Array
      else if name = ''Uint32Array'' then Inr Uint32Array
      else if name = ''Float32Array'' then Inr Float32Array
      else if name = ''Float64Array'' then Inr Float64Array
      else Inl (RuntimeError ''unknown type''))"

section \<open>Writing a byte vector into an array buffer\<close>

text \<open>
  \<^verbatim>\<open>arrayBufferUpdate(runtime, buffer, data, offset)\<close> reads the buffer's block and
  its size, throws \<^verbatim>\<open>jsi::JSError\<close> when \<^verbatim>\<open>data.size() > blockSize\<close>, and
  otherwise copies \<^verbatim>\<open>data\<close> to \<^verbatim>\<open>dataBlock + offset\<close> with
  \<^verbatim>\<open>std::copy\<close>. The buffer is the list of its bytes. \<^verbatim>\<open>size_t\<close> is an
  unsigned word of the platform's width, the type parameter \<open>'w\<close>; the sizes of
  the vector and of the block are the lengths of the lists. The copy is not
  guarded by the offset. A copy of an empty vector writes nothing and leaves the
  buffer as it is, whatever the offset. A copy of a vector that is not empty and
  does not lie within the block writes at least one byte outside the block, which
  C++ leaves undefined; the model gives that outcome a constructor of its own
  instead of a buffer.
\<close>

datatype js_error = JSError string

datatype update_result =
    Threw js_error
  | Updated "8 word list"
  | WroteOutsideBlock

definition arrayBufferUpdate ::
  "8 word list \<Rightarrow> 8 word list \<Rightarrow> 'w::len word \<Rightarrow> update_result" where
  "arrayBufferUpdate buffer data offset =
     (let blockSize = length buffer in
      if length data > blockSize then Threw (JSError ''ArrayBuffer is to small to fit data'')
      else if data = [] then Updated buffer
      else if unat offset + length data \<le> blockSize
        then Updated (take (unat offset) buffer @ data
                      @ drop (unat offset + length data) buffer)
      else WroteOutsideBlock)"

definition rejected :: "update_result \<Rightarrow> bool" where
  "rejected r =
     (case r of Threw e \<Rightarrow> True | Updated b \<Rightarrow> False | WroteOutsideBlock \<Rightarrow> False)"

section \<open>The view snapshot and the mutation instructions of the specification\<close>

text \<open>
  Modelled from the spec: the snapshot of one node and the five instruction shapes.
  Neither the snapshot type nor a tagged instruction type is part of the sources at
  hand (the sources hold the five factories of the struct above only). Section 3
  of the specification gives a node an identity, a component type, an opaque
  property bag and the ordered identities of its children, and gives the
  instruction exactly one of five shapes with the operands of its table.
\<close>

type_synonym identity = nat

record ('t, 'p) ViewSnapshot =
  identity :: identity
  component :: 't
  props :: 'p
  childIds :: "identity list"

datatype ('t, 'p) MutationInstruction =
    CreateInstr "('t, 'p) ViewSnapshot"
  | DeleteInstr "('t, 'p) ViewSnapshot"
  | InsertInstr "('t, 'p) ViewSnapshot" "('t, 'p) ViewSnapshot" nat
  | RemoveInstr "('t, 'p) ViewSnapshot" "('t, 'p) ViewSnapshot" nat
  | UpdateInstr "('t, 'p) ViewSnapshot" "('t, 'p) ViewSnapshot" "('t, 'p) ViewSnapshot" nat

section \<open>The snapshot tree of the specification\<close>

text \<open>
  Modelled from the spec: the full tree of section 3 (a root and a node table) and
  \<open>lookup\<close> of section 4.1; no tree type is part of the sources at hand. The table
  is kept resolved: a node holds its children as trees, in order, so the
  parent/child relation has a single root and no cycle by construction.
  \<open>snapshot\<close> is the node as section 3 describes it (with the identities of its
  children), \<open>nodes\<close> lists a tree's nodes, and what is left of well-formedness is
  that no identity occurs twice in the tree.
\<close>

datatype ('t, 'p) ViewTree =
  ViewNode (nodeId: identity) (nodeType: 't) (nodeProps: 'p) (subtrees: "('t, 'p) ViewTree list")

definition snapshot :: "('t, 'p) ViewTree \<Rightarrow> ('t, 'p) ViewSnapshot" where
  "snapshot n =
     \<lparr>identity = nodeId n, component = nodeType n, props = nodeProps n,
      childIds = map nodeId (subtrees n)\<rparr>"

fun nodes :: "('t, 'p) ViewTree \<Rightarrow> ('t, 'p) ViewTree list" where
  "nodes (ViewNode i t p cs) = ViewNode i t p cs # concat (map nodes cs)"

definition lookup :: "('t, 'p) ViewTree \<Rightarrow> identity \<Rightarrow> ('t, 'p) ViewSnapshot option" where
  "lookup tree i = map_option snapshot (find (\<lambda>n. nodeId n = i) (nodes tree))"

definition wellFormed :: "('t, 'p) ViewTree \<Rightarrow> bool" where
  "wellFormed tree = distinct (map nodeId (nodes tree))"

section \<open>The differ of the specification\<close>

text \<open>
  Modelled from the spec: the differ (\<open>diff\<close>) of section 4.2 and its two errors of
  section 7; the differ is not part of the sources at hand. Section 7 has the
  differ reject an identity that the two trees use with different component types.
\<close>

definition typeMismatch :: "('t, 'p) ViewTree \<Rightarrow> ('t, 'p) ViewTree \<Rightarrow> bool" where
  "typeMismatch oldTree newTree =
     list_ex (\<lambda>a. case lookup newTree (nodeId a) of
                     None \<Rightarrow> False
                   | Some b \<Rightarrow> component b \<noteq> nodeType a) (nodes oldTree)"

datatype DiffError = MalformedInputError | TypeMismatchUnderIdentity

text \<open>
  Modelled from the spec: \<open>childAt i k cs\<close> looks the identity \<open>i\<close> up in a child
  list whose first position is \<open>k\<close> and gives the position and the child.
\<close>

fun childAt :: "identity \<Rightarrow> nat \<Rightarrow> ('t, 'p) ViewTree list \<Rightarrow> (nat \<times> ('t, 'p) ViewTree) option" where
  "childAt i k [] = None"
| "childAt i k (c # cs) = (if nodeId c = i then Some (k, c) else childAt i (Suc k) cs)"

text \<open>
  Modelled from the spec: rule 3 of section 4.2 on a whole subtree. A child that is
  in the old list only is removed at its position and then deleted; inside the
  removed subtree the same is done first, deepest nodes first. The children of
  one parent are removed from the last position to the first, so that the index
  of every \<open>Remove\<close> is both the child's prior position and its position at the
  moment the instruction is applied (section 3).
\<close>

fun removeSubtree ::
      "('t, 'p) ViewSnapshot \<Rightarrow> ('t, 'p) ViewTree \<Rightarrow> nat \<Rightarrow> ('t, 'p) MutationInstruction list"
  and removeChildren ::
      "('t, 'p) ViewSnapshot \<Rightarrow> nat \<Rightarrow> ('t, 'p) ViewTree list \<Rightarrow> ('t, 'p) MutationInstruction list" where
  "removeSubtree parent (ViewNode i t p cs) k =
     removeChildren (snapshot (ViewNode i t p cs)) 0 cs
     @ [RemoveInstr parent (snapshot (ViewNode i t p cs)) k, DeleteInstr (snapshot (ViewNode i t p cs))]"
| "removeChildren parent k [] = []"
| "removeChildren parent k (c # cs) = removeChildren parent (Suc k) cs @ removeSubtree parent c k"

text \<open>
  Modelled from the spec: rule 2 of section 4.2 on a whole subtree. A child that is
  in the new list only is created and then inserted at its position, and after
  that its own children, from the first position to the last.
\<close>

fun createSubtree ::
      "('t, 'p) ViewSnapshot \<Rightarrow> ('t, 'p) ViewTree \<Rightarrow> nat \<Rightarrow> ('t, 'p) MutationInstruction list"
  and createChildren ::
      "('t, 'p) ViewSnapshot \<Rightarrow> nat \<Rightarrow> ('t, 'p) ViewTree list \<Rightarrow> ('t, 'p) MutationInstruction list" where
  "createSubtree parent (ViewNode i t p cs) k =
     [CreateInstr (snapshot (ViewNode i t p cs)), InsertInstr parent (snapshot (ViewNode i t p cs)) k]
     @ createChildren (snapshot (ViewNode i t p cs)) 0 cs"
| "createChildren parent k [] = []"
| "createChildren parent k (c # cs) = createSubtree parent c k @ createChildren parent (Suc k) cs"

text \<open>
  Modelled from the spec: rule 4 of section 4.2. A child that is in both lists is
  moved when its position has changed; the specification's scenarios A and D
  read the position relative to the other children that stay (in D no
  instruction names \<open>Y\<close>, in A only \<open>X\<close> is moved). \<open>staying bound olds news\<close> walks
  the new list and keeps a child of both lists when its old position is not
  before \<open>bound\<close>, the position after the last child kept; the children of both
  lists that are not kept are the moved ones.
\<close>

fun staying :: "nat \<Rightarrow> ('t, 'p) ViewTree list \<Rightarrow> ('t, 'p) ViewTree list \<Rightarrow> identity list" where
  "staying bound olds [] = []"
| "staying bound olds (new # news) =
     (case childAt (nodeId new) 0 olds of
        None \<Rightarrow> staying bound olds news
      | Some (i, old) \<Rightarrow>
          if bound \<le> i then nodeId new # staying (Suc i) olds news
          else staying bound olds news)"

text \<open>
  Modelled from the spec: the instructions of one parent. \<open>removals\<close> walks the old
  list (emitting from the last position to the first): a child of the old list
  only is removed and deleted with its subtree, a moved child is removed.
  \<open>insertions\<close> walks the new list from the first position: a child of the new
  list only is created and inserted with its subtree, a moved child is inserted.
\<close>

fun removals ::
  "('t, 'p) ViewSnapshot \<Rightarrow> ('t, 'p) ViewTree list \<Rightarrow> identity list \<Rightarrow> nat
     \<Rightarrow> ('t, 'p) ViewTree list \<Rightarrow> ('t, 'p) MutationInstruction list" where
  "removals parent news stay k [] = []"
| "removals parent news stay k (old # olds) =
     removals parent news stay (Suc k) olds
     @ (case childAt (nodeId old) 0 news of
          None \<Rightarrow> removeSubtree parent old k
        | Some (j, new) \<Rightarrow>
            if nodeId old \<in> set stay then [] else [RemoveInstr parent (snapshot old) k])"

fun insertions ::
  "('t, 'p) ViewSnapshot \<Rightarrow> ('t, 'p) ViewTree list \<Rightarrow> identity list \<Rightarrow> nat
     \<Rightarrow> ('t, 'p) ViewTree list \<Rightarrow> ('t, 'p) MutationInstruction list" where
  "insertions parent olds stay k [] = []"
| "insertions parent olds stay k (new # news) =
     (case childAt (nodeId new) 0 olds of
        None \<Rightarrow> createSubtree parent new k
      | Some (i, old) \<Rightarrow>
          if nodeId new \<in> set stay then [] else [InsertInstr parent (snapshot new) k])
     @ insertions parent olds stay (Suc k) news"

text \<open>
  Modelled from the spec: per parent, the removals come first, then the updates,
  then the creations and insertions (ordering requirement of section 4.2). For
  every child that is in both lists the child lists of its old and new node are
  compared in turn, and after their instructions an \<open>Update\<close> is emitted when the
  property bags differ or the children's identities differ (rule 1); its index is
  the child's position in the new list. Property bags are compared with equality.
  The recursion descends into the old tree, which gets smaller.
\<close>

function diffChildren ::
  "('t, 'p) ViewSnapshot \<Rightarrow> ('t, 'p) ViewTree list \<Rightarrow> ('t, 'p) ViewTree list
     \<Rightarrow> ('t, 'p) MutationInstruction list" where
  "diffChildren parent olds news =
     removals parent news (staying 0 olds news) 0 olds
     @ concat (map (\<lambda>old. case childAt (nodeId old) 0 news of
                            None \<Rightarrow> []
                          | Some (j, new) \<Rightarrow>
                              diffChildren (snapshot old) (subtrees old) (subtrees new)
                              @ (if nodeProps old \<noteq> nodeProps new
                                    \<or> map nodeId (subtrees old) \<noteq> map nodeId (subtrees new)
                                 then [UpdateInstr parent (snapshot old) (snapshot new) j]
                                 else [])) olds)
     @ insertions parent olds (staying 0 olds news) 0 news"
  by pat_completeness auto
termination
proof (relation "measure (\<lambda>(parent, olds, news). size_list size olds)")
  show "wf (measure (\<lambda>(parent, olds, news). size_list size olds))"
    by simp
next
  fix parent :: "('t, 'p) ViewSnapshot"
  fix olds news :: "('t, 'p) ViewTree list"
  fix old new :: "('t, 'p) ViewTree"
  assume "old \<in> set olds"
  then have "size old \<le> size_list size olds"
    by (simp add: size_list_estimation')
  moreover have "size_list size (subtrees old) < size old"
    by (cases old) simp
  ultimately show "((snapshot old, subtrees old, subtrees new), (parent, olds, news))
      \<in> measure (\<lambda>(parent, olds, news). size_list size olds)"
    by simp
qed

text \<open>
  The equation of \<open>diffChildren\<close> is applied where a proof asks for it, not by the
  simplifier.
\<close>

declare diffChildren.simps [simp del]

text \<open>
  Modelled from the spec: \<open>diff\<close> fails fast on a malformed tree and on a type
  mismatch under one identity, and otherwise walks the trees top-down from the
  two roots, whose child lists are compared first.
\<close>

definition diff ::
  "('t, 'p) ViewTree \<Rightarrow> ('t, 'p) ViewTree \<Rightarrow> DiffError + ('t, 'p) MutationInstruction list" where
  "diff oldTree newTree =
     (if \<not> wellFormed oldTree \<or> \<not> wellFormed newTree then Inl MalformedInputError
      else if typeMismatch oldTree newTree then Inl TypeMismatchUnderIdentity
      else Inr (diffChildren (snapshot oldTree) (subtrees oldTree) (subtrees newTree)))"

section \<open>The host tree and the applier of the specification\<close>

text \<open>
  Modelled from the spec: the host tree, its five primitives and the applier
  (\<open>apply\<close>); none of them is part of the sources at hand. Section 6 lists the host
  operations \<open>createView\<close>, \<open>destroyView\<close>, \<open>attachChild\<close>, \<open>detachChildAt\<close> and
  \<open>updateViewContent\<close>, keyed by handles. The host is a table from handles to
  views (type, content, attached children in order) and the handles it can still
  hand out; it cannot allocate once these run out. A primitive that the host
  cannot perform returns \<open>None\<close>.
\<close>

type_synonym handle = nat

record ('t, 'p) HostView =
  kind :: 't
  payload :: 'p
  attached :: "handle list"

record ('t, 'p) HostTree =
  views :: "handle \<rightharpoonup> ('t, 'p) HostView"
  spare :: "handle list"

definition createView ::
  "('t, 'p) HostTree \<Rightarrow> 't \<Rightarrow> 'p \<Rightarrow> (handle \<times> ('t, 'p) HostTree) option" where
  "createView host t p =
     (case spare host of
        [] \<Rightarrow> None
      | h # hs \<Rightarrow>
          Some (h, host\<lparr>views := (views host)(h \<mapsto> \<lparr>kind = t, payload = p, attached = []\<rparr>),
                         spare := hs\<rparr>))"

definition destroyView :: "('t, 'p) HostTree \<Rightarrow> handle \<Rightarrow> ('t, 'p) HostTree" where
  "destroyView host h = host\<lparr>views := (views host)(h := None)\<rparr>"

definition attachChild ::
  "('t, 'p) HostTree \<Rightarrow> handle \<Rightarrow> handle \<Rightarrow> nat \<Rightarrow> ('t, 'p) HostTree option" where
  "attachChild host parentHandle childHandle i =
     (case views host parentHandle of
        None \<Rightarrow> None
      | Some v \<Rightarrow>
          if i \<le> length (attached v)
          then Some (host\<lparr>views := (views host)(parentHandle \<mapsto>
                       v\<lparr>attached := take i (attached v) @ childHandle # drop i (attached v)\<rparr>)\<rparr>)
          else None)"

definition detachChildAt ::
  "('t, 'p) HostTree \<Rightarrow> handle \<Rightarrow> nat \<Rightarrow> (handle \<times> ('t, 'p) HostTree) option" where
  "detachChildAt host parentHandle i =
     (case views host parentHandle of
        None \<Rightarrow> None
      | Some v \<Rightarrow>
          if i < length (attached v)
          then Some (attached v ! i,
                     host\<lparr>views := (views host)(parentHandle \<mapsto>
                       v\<lparr>attached := take i (attached v) @ drop (Suc i) (attached v)\<rparr>)\<rparr>)
          else None)"

definition updateViewContent ::
  "('t, 'p) HostTree \<Rightarrow> handle \<Rightarrow> 'p \<Rightarrow> ('t, 'p) HostTree option" where
  "updateViewContent host h newProps =
     (case views host h of
        None \<Rightarrow> None
      | Some v \<Rightarrow> Some (host\<lparr>views := (views host)(h \<mapsto> v\<lparr>payload := newProps\<rparr>)\<rparr>))"

text \<open>
  Modelled from the spec: section 4.3, one instruction at a time. The applier's
  state is the host tree and the identity map. \<open>Create\<close> allocates and records the
  handle; \<open>Delete\<close> looks the handle up, releases it and removes the entry;
  \<open>Insert\<close> looks up parent and child and attaches at the index, which must not
  exceed the child count; \<open>Remove\<close> looks up the parent and detaches the child at
  the index (the comparison with \<open>oldNode\<close> is made in debug builds only and is
  left out); \<open>Update\<close> looks the handle up and replaces the content. An identity
  without an entry, or an entry whose view the host does not hold, is
  \<open>UnknownIdentity\<close>; an index outside the child list is \<open>IndexOutOfRange\<close>.
\<close>

datatype ApplyError = HostAllocationError | IndexOutOfRange | UnknownIdentity

record ('t, 'p) ApplierState =
  hostTree :: "('t, 'p) HostTree"
  identityMap :: "identity \<rightharpoonup> handle"

definition childCount :: "('t, 'p) HostTree \<Rightarrow> handle \<Rightarrow> nat option" where
  "childCount host h = map_option (\<lambda>v. length (attached v)) (views host h)"

fun apply_instruction ::
  "('t, 'p) MutationInstruction \<Rightarrow> ('t, 'p) ApplierState \<Rightarrow> ApplyError + ('t, 'p) ApplierState" where
  "apply_instruction (CreateInstr newNode) s =
     (case createView (hostTree s) (component newNode) (props newNode) of
        None \<Rightarrow> Inl HostAllocationError
      | Some (h, host') \<Rightarrow>
          Inr \<lparr>hostTree = host', identityMap = (identityMap s)(identity newNode \<mapsto> h)\<rparr>)"
| "apply_instruction (DeleteInstr oldNode) s =
     (case identityMap s (identity oldNode) of
        None \<Rightarrow> Inl UnknownIdentity
      | Some h \<Rightarrow>
          Inr \<lparr>hostTree = destroyView (hostTree s) h,
               identityMap = (identityMap s)(identity oldNode := None)\<rparr>)"
| "apply_instruction (InsertInstr parent newNode i) s =
     (case (identityMap s (identity parent), identityMap s (identity newNode)) of
        (Some ph, Some ch) \<Rightarrow>
          (case childCount (hostTree s) ph of
             None \<Rightarrow> Inl UnknownIdentity
           | Some n \<Rightarrow>
               if n < i then Inl IndexOutOfRange
               else (case attachChild (hostTree s) ph ch i of
                       None \<Rightarrow> Inl IndexOutOfRange
                     | Some host' \<Rightarrow> Inr (s\<lparr>hostTree := host'\<rparr>)))
      | _ \<Rightarrow> Inl UnknownIdentity)"
| "apply_instruction (RemoveInstr parent oldNode i) s =
     (case identityMap s (identity parent) of
        None \<Rightarrow> Inl UnknownIdentity
      | Some ph \<Rightarrow>
          (case childCount (hostTree s) ph of
             None \<Rightarrow> Inl UnknownIdentity
           | Some n \<Rightarrow>
               (case detachChildAt (hostTree s) ph i of
                  None \<Rightarrow> Inl IndexOutOfRange
                | Some (ch, host') \<Rightarrow> Inr (s\<lparr>hostTree := host'\<rparr>))))"
| "apply_instruction (UpdateInstr parent oldNode newNode i) s =
     (case identityMap s (identity oldNode) of
        None \<Rightarrow> Inl UnknownIdentity
      | Some h \<Rightarrow>
          (case updateViewContent (hostTree s) h (props newNode) of
             None \<Rightarrow> Inl UnknownIdentity
           | Some host' \<Rightarrow> Inr (s\<lparr>hostTree := host'\<rparr>)))"

text \<open>
  Modelled from the spec: \<open>apply\<close> (here \<open>apply_instructions\<close>) runs the list
  strictly in order. At the first
  instruction that fails it stops and reports how many instructions succeeded, the
  index of the failing instruction and the error, and hands back the host tree and
  the identity map as they are at that moment (section 7: no retry, no rollback).
\<close>

datatype ('t, 'p) ApplyOutcome =
    Completed "('t, 'p) ApplierState"
  | Failed (succeeded: nat) (failingIndex: nat) (failure: ApplyError)
      (stateAtFailure: "('t, 'p) ApplierState")

fun apply_from ::
  "nat \<Rightarrow> ('t, 'p) MutationInstruction list \<Rightarrow> ('t, 'p) ApplierState \<Rightarrow> ('t, 'p) ApplyOutcome" where
  "apply_from k [] s = Completed s"
| "apply_from k (m # ms) s =
     (case apply_instruction m s of
        Inl e \<Rightarrow> Failed k k e s
      | Inr s' \<Rightarrow> apply_from (Suc k) ms s')"

definition apply_instructions ::
  "('t, 'p) MutationInstruction list \<Rightarrow> ('t, 'p) ApplierState \<Rightarrow> ('t, 'p) ApplyOutcome" where
  "apply_instructions instructions s = apply_from 0 instructions s"

text \<open>
  The reference against which \<open>apply_instructions\<close> is judged: \<open>executes s ms s'\<close> holds when
  every instruction of \<open>ms\<close>, taken one after the other from \<open>s\<close>, succeeds and
  the last leaves \<open>s'\<close>.
\<close>

inductive executes ::
  "('t, 'p) ApplierState \<Rightarrow> ('t, 'p) MutationInstruction list \<Rightarrow> ('t, 'p) ApplierState \<Rightarrow> bool" where
  executes_Nil: "executes s [] s"
| executes_Cons: "apply_instruction m s = Inr s' \<Longrightarrow> executes s' ms s'' \<Longrightarrow> executes s (m # ms) s''"

section \<open>The factories\<close>

text \<open>
  C5. Each of the five factories returns a mutation whose type tag is the factory's
  and whose operand fields are the arguments passed: \<open>CreateMutation\<close> stores the
  view as \<open>newChildShadowView\<close>, \<open>DeleteMutation\<close> as \<open>oldChildShadowView\<close>,
  \<open>InsertMutation\<close> stores parent, new child and index, \<open>RemoveMutation\<close> parent,
  old child and index, \<open>UpdateMutation\<close> parent, old child, new child and index.
\<close>

theorem factories_store_operands:
  "type (CreateMutation d v) = Create \<and> newChildShadowView (CreateMutation d v) = v
   \<and> type (DeleteMutation d v) = Delete \<and> oldChildShadowView (DeleteMutation d v) = v
   \<and> type (InsertMutation d p c i) = Insert \<and> parentShadowView (InsertMutation d p c i) = p
   \<and> newChildShadowView (InsertMutation d p c i) = c \<and> index (InsertMutation d p c i) = i
   \<and> type (RemoveMutation d p c i) = Remove \<and> parentShadowView (RemoveMutation d p c i) = p
   \<and> oldChildShadowView (RemoveMutation d p c i) = c \<and> index (RemoveMutation d p c i) = i
   \<and> type (UpdateMutation d p old new i) = Update
   \<and> parentShadowView (UpdateMutation d p old new i) = p
   \<and> oldChildShadowView (UpdateMutation d p old new i) = old
   \<and> newChildShadowView (UpdateMutation d p old new i) = new
   \<and> index (UpdateMutation d p old new i) = i"
  by (simp add: CreateMutation_def DeleteMutation_def InsertMutation_def RemoveMutation_def
      UpdateMutation_def)

text \<open>
  C6. A mutation built by \<open>CreateMutation\<close> carries no old child and no parent: both
  fields keep the default value, whatever the view passed. A mutation built by
  \<open>DeleteMutation\<close> carries no new child and no parent.
\<close>

theorem create_delete_leave_defaults:
  "oldChildShadowView (CreateMutation d v) = d \<and> parentShadowView (CreateMutation d v) = d
   \<and> newChildShadowView (DeleteMutation d v) = d \<and> parentShadowView (DeleteMutation d v) = d"
  by (simp add: CreateMutation_def DeleteMutation_def)

text \<open>
  C9. \<open>CreateMutation\<close> and \<open>DeleteMutation\<close> set the index to \<open>-1\<close> for every
  view; \<open>InsertMutation\<close>, \<open>RemoveMutation\<close> and \<open>UpdateMutation\<close> set it to the
  value the caller supplied. The index is a 32-bit word; read as a signed
  integer (\<open>sint\<close>), the sentinel is \<open>-1\<close>.
\<close>

theorem index_sentinel_or_argument:
  "index (CreateMutation d v) = - 1 \<and> sint (index (CreateMutation d v)) = - 1
   \<and> index (DeleteMutation d v) = - 1 \<and> sint (index (DeleteMutation d v)) = - 1
   \<and> index (InsertMutation d p c i) = i
   \<and> index (RemoveMutation d p c i) = i
   \<and> index (UpdateMutation d p old new i) = i"
  by (simp add: CreateMutation_def DeleteMutation_def InsertMutation_def RemoveMutation_def
      UpdateMutation_def)

section \<open>Kinds and constructor names\<close>

lemma kind_of_name_of_kind: "getTypedArrayKindForName (getTypedArrayConstructorName k) = Inr k"
  by (cases k) (simp_all add: getTypedArrayKindForName_def getTypedArrayConstructorName_def)

lemma name_of_kind_of_name:
  "getTypedArrayKindForName n = Inr k \<Longrightarrow> getTypedArrayConstructorName k = n"
  by (auto simp add: getTypedArrayKindForName_def getTypedArrayConstructorName_def split: if_splits)

lemma unknown_name:
  "getTypedArrayKindForName n = Inl e \<Longrightarrow> e = RuntimeError ''unknown type'' \<and> n \<notin> range getTypedArrayConstructorName"
proof
  assume a: "getTypedArrayKindForName n = Inl e"
  then show "e = RuntimeError ''unknown type''"
    by (auto simp add: getTypedArrayKindForName_def split: if_splits)
  show "n \<notin> range getTypedArrayConstructorName"
  proof
    assume "n \<in> range getTypedArrayConstructorName"
    then obtain k where "n = getTypedArrayConstructorName k" by blast
    with kind_of_name_of_kind [of k] a show False by simp
  qed
qed

text \<open>
  C8. For each of the nine kinds \<open>k\<close>, looking up the constructor name of \<open>k\<close>
  gives \<open>k\<close> back; a name is mapped to \<open>k\<close> exactly when it is the constructor
  name of \<open>k\<close>, so the two mappings are inverse to each other on the enum; and
  \<open>getTypedArrayKindForName\<close> throws exactly for the names that are not one of
  the nine constructor names.
\<close>

theorem kind_name_inverse:
  "getTypedArrayKindForName (getTypedArrayConstructorName k) = Inr k
   \<and> (getTypedArrayKindForName n = Inr k \<longleftrightarrow> n = getTypedArrayConstructorName k)
   \<and> (getTypedArrayKindForName n = Inl (RuntimeError ''unknown type'')
        \<longleftrightarrow> n \<notin> range getTypedArrayConstructorName)"
proof (intro conjI iffI)
  show "getTypedArrayKindForName (getTypedArrayConstructorName k) = Inr k"
    by (rule kind_of_name_of_kind)
  show "n = getTypedArrayConstructorName k" if "getTypedArrayKindForName n = Inr k"
    using name_of_kind_of_name [OF that] by simp
  show "getTypedArrayKindForName n = Inr k" if "n = getTypedArrayConstructorName k"
    using that kind_of_name_of_kind by simp
  show "n \<notin> range getTypedArrayConstructorName"
    if "getTypedArrayKindForName n = Inl (RuntimeError ''unknown type'')"
    using unknown_name [OF that] by simp
  show "getTypedArrayKindForName n = Inl (RuntimeError ''unknown type'')"
    if out: "n \<notin> range getTypedArrayConstructorName"
  proof (cases "getTypedArrayKindForName n")
    case (Inl e)
    with unknown_name [OF Inl] show ?thesis by simp
  next
    case (Inr k')
    from name_of_kind_of_name [OF Inr] out show ?thesis by blast
  qed
qed

section \<open>The bounds check of the buffer update\<close>

text \<open>
  C10. \<open>arrayBufferUpdate\<close> throws if and only if the data vector is longer than
  the buffer. The offset takes no part in the check: whether the call is rejected
  is the same for any two offsets, and a call whose data fits the buffer is not
  rejected even when \<open>offset + length data\<close> exceeds the buffer's size.
\<close>

theorem update_rejected_iff_data_longer:
  "(rejected (arrayBufferUpdate buffer data offset) \<longleftrightarrow> length buffer < length data)
   \<and> (arrayBufferUpdate buffer data offset = Threw (JSError ''ArrayBuffer is to small to fit data'')
        \<longleftrightarrow> length buffer < length data)
   \<and> rejected (arrayBufferUpdate buffer data offset) = rejected (arrayBufferUpdate buffer data offset')
   \<and> (length data \<le> length buffer \<and> length buffer < unat offset + length data
        \<longrightarrow> \<not> rejected (arrayBufferUpdate buffer data offset))"
  by (simp add: arrayBufferUpdate_def rejected_def Let_def)

theorem update_rejected_iff_data_longer_witness:
  "length [9, 9 :: 8 word] \<le> length [1, 2, 3, 4 :: 8 word]
   \<and> length [1, 2, 3, 4 :: 8 word] < unat (3 :: 64 word) + length [9, 9 :: 8 word]
   \<and> \<not> rejected (arrayBufferUpdate [1, 2, 3, 4] [9, 9] (3 :: 64 word))
   \<and> arrayBufferUpdate [1, 2, 3, 4] [9, 9] (3 :: 64 word) = WroteOutsideBlock
   \<and> arrayBufferUpdate [1, 2, 3, 4] [9, 9] (1 :: 64 word) = Updated [1, 9, 9, 4]
   \<and> arrayBufferUpdate [1, 2, 3, 4] [] (5 :: 64 word) = Updated [1, 2, 3, 4]
   \<and> rejected (arrayBufferUpdate [1] [9, 9] (0 :: 64 word))"
  using update_rejected_iff_data_longer [of "[1, 2, 3, 4]" "[9, 9]" "3 :: 64 word" "0 :: 64 word"]
  by (simp add: arrayBufferUpdate_def rejected_def)

section \<open>Applying an instruction list\<close>

lemma executes_Nil_iff: "executes s [] s' \<longleftrightarrow> s' = s"
  by (auto intro: executes.intros elim: executes.cases)

lemma executes_Cons_iff:
  "executes s (m # ms) s'' \<longleftrightarrow> (\<exists>s'. apply_instruction m s = Inr s' \<and> executes s' ms s'')"
  by (auto intro: executes.intros elim: executes.cases)

lemma apply_from_Completed: "apply_from k ms s = Completed s' \<longleftrightarrow> executes s ms s'"
proof (induction ms arbitrary: k s)
  case Nil
  show ?case by (auto simp add: executes_Nil_iff)
next
  case (Cons m ms)
  show ?case
  proof (cases "apply_instruction m s")
    case (Inl e)
    then show ?thesis by (simp add: executes_Cons_iff)
  next
    case (Inr t)
    then show ?thesis using Cons.IH [of "Suc k" t] by (simp add: executes_Cons_iff)
  qed
qed

lemma apply_from_Failed:
  "apply_from k ms s = Failed n i e s' \<longleftrightarrow>
     n = i \<and> k \<le> i \<and> i - k < length ms \<and> executes s (take (i - k) ms) s'
     \<and> apply_instruction (ms ! (i - k)) s' = Inl e"
proof (induction ms arbitrary: k s)
  case Nil
  show ?case by simp
next
  case (Cons m ms)
  show ?case
  proof (cases "apply_instruction m s")
    case (Inl e')
    show ?thesis
    proof (cases "i = k")
      case True
      with Inl show ?thesis by (auto simp add: executes_Nil_iff)
    next
      case False
      then have "k \<le> i \<Longrightarrow> i - k = Suc (i - Suc k)" by simp
      with Inl False show ?thesis by (auto simp add: executes_Cons_iff)
    qed
  next
    case (Inr t)
    show ?thesis
    proof (cases "i = k")
      case True
      with Inr Cons.IH [of "Suc k" t] show ?thesis by (auto simp add: executes_Nil_iff)
    next
      case False
      have *: "i - k = Suc (i - Suc k)" if "k \<le> i" using that False by simp
      show ?thesis
      proof (cases "k \<le> i")
        case True
        with False have "Suc k \<le> i" by simp
        with Inr Cons.IH [of "Suc k" t] * [OF True] show ?thesis
          by (simp add: executes_Cons_iff)
      next
        case False
        with Inr Cons.IH [of "Suc k" t] show ?thesis by simp
      qed
    qed
  qed
qed

text \<open>
  C7. When an instruction fails during \<open>apply\<close>, the applier stops at that
  instruction: the outcome \<open>Failed n i e s'\<close> is returned exactly when \<open>i\<close> is an
  index of the list, the \<open>i\<close> instructions before it have all succeeded, one after
  the other, and left the state \<open>s'\<close>, the instruction at \<open>i\<close> fails with \<open>e\<close>
  in \<open>s'\<close>, and the number \<open>n\<close> of succeeded instructions is \<open>i\<close>. The state
  handed back is the one before the failing instruction (nothing is rolled back,
  nothing is retried). The applier completes exactly when every instruction of
  the list succeeds in turn, so no instruction is skipped.
\<close>

theorem apply_stops_at_first_failure:
  "(apply_instructions ms s = Failed n i e s' \<longleftrightarrow>
      n = i \<and> i < length ms \<and> executes s (take i ms) s'
      \<and> apply_instruction (ms ! i) s' = Inl e)
   \<and> (apply_instructions ms s = Completed s' \<longleftrightarrow> executes s ms s')"
  using apply_from_Failed [of 0 ms s n i e s'] apply_from_Completed [of 0 ms s s']
  by (simp add: apply_instructions_def)

theorem apply_stops_at_first_failure_witness:
  "apply_instructions
     [CreateInstr \<lparr>identity = 1, component = ''View'', props = ''red'', childIds = []\<rparr>,
      CreateInstr \<lparr>identity = 2, component = ''View'', props = ''blue'', childIds = []\<rparr>,
      DeleteInstr \<lparr>identity = 1, component = ''View'', props = ''red'', childIds = []\<rparr>]
     \<lparr>hostTree = \<lparr>views = Map.empty, spare = [7]\<rparr>, identityMap = Map.empty\<rparr>
   = Failed 1 1 HostAllocationError
       \<lparr>hostTree = \<lparr>views = [7 \<mapsto> \<lparr>kind = ''View'', payload = ''red'', attached = []\<rparr>], spare = []\<rparr>,
        identityMap = [1 \<mapsto> 7]\<rparr>
   \<and> executes \<lparr>hostTree = \<lparr>views = Map.empty, spare = [7]\<rparr>, identityMap = Map.empty\<rparr>
       [CreateInstr \<lparr>identity = 1, component = ''View'', props = ''red'', childIds = []\<rparr>]
       \<lparr>hostTree = \<lparr>views = [7 \<mapsto> \<lparr>kind = ''View'', payload = ''red'', attached = []\<rparr>], spare = []\<rparr>,
        identityMap = [1 \<mapsto> 7]\<rparr>"
proof -
  let ?x = "\<lparr>identity = 1, component = ''View'', props = ''red'', childIds = []\<rparr>"
  let ?y = "\<lparr>identity = 2, component = ''View'', props = ''blue'', childIds = []\<rparr>"
  let ?s0 = "\<lparr>hostTree = \<lparr>views = Map.empty, spare = [7]\<rparr>, identityMap = Map.empty\<rparr>
     :: (string, string) ApplierState"
  let ?s1 = "\<lparr>hostTree = \<lparr>views = [7 \<mapsto> \<lparr>kind = ''View'', payload = ''red'', attached = []\<rparr>], spare = []\<rparr>,
        identityMap = [1 \<mapsto> 7]\<rparr> :: (string, string) ApplierState"
  have run: "apply_instructions [CreateInstr ?x, CreateInstr ?y, DeleteInstr ?x] ?s0
      = Failed 1 1 HostAllocationError ?s1"
    by (simp add: apply_instructions_def createView_def)
  with apply_stops_at_first_failure
         [of "[CreateInstr ?x, CreateInstr ?y, DeleteInstr ?x]" ?s0 1 1 HostAllocationError ?s1]
  show ?thesis by simp
qed

section \<open>The differ on the specification's scenarios\<close>

text \<open>
  The four scenarios of section 8 of the specification, with the instruction lists
  it expects: a swap of two children (A), a changed property bag (B), an appended
  child (C) and a removed child (D).
\<close>

lemma scenario_A:
  "diff (ViewNode 0 ''Root'' ''r'' [ViewNode 1 ''View'' ''x'' [], ViewNode 2 ''View'' ''y'' []])
        (ViewNode 0 ''Root'' ''r'' [ViewNode 2 ''View'' ''y'' [], ViewNode 1 ''View'' ''x'' []])
   = Inr [RemoveInstr \<lparr>identity = 0, component = ''Root'', props = ''r'', childIds = [1, 2]\<rparr>
            \<lparr>identity = 1, component = ''View'', props = ''x'', childIds = []\<rparr> 0,
          InsertInstr \<lparr>identity = 0, component = ''Root'', props = ''r'', childIds = [1, 2]\<rparr>
            \<lparr>identity = 1, component = ''View'', props = ''x'', childIds = []\<rparr> 1]"
  by code_simp

lemma scenario_B:
  "diff (ViewNode 0 ''Root'' ''r'' [ViewNode 1 ''View'' ''red'' []])
        (ViewNode 0 ''Root'' ''r'' [ViewNode 1 ''View'' ''blue'' []])
   = Inr [UpdateInstr \<lparr>identity = 0, component = ''Root'', props = ''r'', childIds = [1]\<rparr>
            \<lparr>identity = 1, component = ''View'', props = ''red'', childIds = []\<rparr>
            \<lparr>identity = 1, component = ''View'', props = ''blue'', childIds = []\<rparr> 0]"
  by code_simp

lemma scenario_C:
  "diff (ViewNode 0 ''Root'' ''r'' [ViewNode 1 ''View'' ''x'' []])
        (ViewNode 0 ''Root'' ''r'' [ViewNode 1 ''View'' ''x'' [], ViewNode 3 ''View'' ''z'' []])
   = Inr [CreateInstr \<lparr>identity = 3, component = ''View'', props = ''z'', childIds = []\<rparr>,
          InsertInstr \<lparr>identity = 0, component = ''Root'', props = ''r'', childIds = [1]\<rparr>
            \<lparr>identity = 3, component = ''View'', props = ''z'', childIds = []\<rparr> 1]"
  by code_simp

lemma scenario_D:
  "diff (ViewNode 0 ''Root'' ''r'' [ViewNode 1 ''View'' ''x'' [], ViewNode 2 ''View'' ''y'' []])
        (ViewNode 0 ''Root'' ''r'' [ViewNode 2 ''View'' ''y'' []])
   = Inr [RemoveInstr \<lparr>identity = 0, component = ''Root'', props = ''r'', childIds = [1, 2]\<rparr>
            \<lparr>identity = 1, component = ''View'', props = ''x'', childIds = []\<rparr> 0,
          DeleteInstr \<lparr>identity = 1, component = ''View'', props = ''x'', childIds = []\<rparr>]"
  by code_simp

section \<open>The diff of a tree with itself\<close>

lemma childAt_distinct:
  "distinct (map nodeId (pre @ c # post)) \<Longrightarrow>
     childAt (nodeId c) k (pre @ c # post) = Some (k + length pre, c)"
proof (induction pre arbitrary: k)
  case Nil
  show ?case by simp
next
  case (Cons a pre)
  from Cons.prems have "nodeId a \<noteq> nodeId c" by auto
  moreover from Cons.prems have "distinct (map nodeId (pre @ c # post))" by simp
  ultimately show ?case using Cons.IH [of "Suc k"] by simp
qed

lemma childAt_member:
  assumes "distinct (map nodeId cs)" and "c \<in> set cs"
  shows "\<exists>j. childAt (nodeId c) 0 cs = Some (j, c)"
proof -
  from assms(2) obtain pre post where "cs = pre @ c # post"
    by (auto simp add: in_set_conv_decomp)
  with assms(1) childAt_distinct [of pre c post 0] show ?thesis by auto
qed

lemma staying_same:
  "distinct (map nodeId (pre @ rest)) \<Longrightarrow>
     staying (length pre) (pre @ rest) rest = map nodeId rest"
proof (induction rest arbitrary: pre)
  case Nil
  show ?case by simp
next
  case (Cons c rest)
  from Cons.prems have "distinct (map nodeId ((pre @ [c]) @ rest))" by simp
  from Cons.IH [OF this] have "staying (Suc (length pre)) (pre @ c # rest) rest = map nodeId rest"
    by simp
  with childAt_distinct [OF Cons.prems, of 0] show ?case by simp
qed

lemma removals_none:
  "\<forall>old \<in> set olds. nodeId old \<in> set stay \<and> childAt (nodeId old) 0 news \<noteq> None \<Longrightarrow>
     removals parent news stay k olds = []"
  by (induction olds arbitrary: k) auto

lemma insertions_none:
  "\<forall>new \<in> set news. nodeId new \<in> set stay \<and> childAt (nodeId new) 0 olds \<noteq> None \<Longrightarrow>
     insertions parent olds stay k news = []"
  by (induction news arbitrary: k) auto

lemma distinct_children:
  assumes "distinct (map nodeId (concat (map nodes cs)))"
  shows "distinct (map nodeId cs)"
    and "c \<in> set cs \<Longrightarrow> distinct (map nodeId (concat (map nodes (subtrees c))))"
proof -
  have self: "nodeId b \<in> nodeId ` set (nodes b)" for b :: "('a, 'b) ViewTree"
    by (cases b) simp
  show "distinct (map nodeId cs)" using assms
  proof (induction cs)
    case Nil
    show ?case by simp
  next
    case (Cons a cs)
    from Cons.prems have disj:
      "nodeId ` set (nodes a) \<inter> nodeId ` set (concat (map nodes cs)) = {}"
      and rest: "distinct (map nodeId (concat (map nodes cs)))"
      by simp_all
    have "nodeId a \<noteq> nodeId b" if "b \<in> set cs" for b
    proof -
      from that have "set (nodes b) \<subseteq> set (concat (map nodes cs))" by auto
      with self [of b] have "nodeId b \<in> nodeId ` set (concat (map nodes cs))" by blast
      with disj self [of a] show ?thesis by (metis disjoint_iff)
    qed
    with Cons.IH [OF rest] show ?case by auto
  qed
  show "distinct (map nodeId (concat (map nodes (subtrees c))))" if "c \<in> set cs"
    using assms that
  proof (induction cs)
    case Nil
    then show ?case by simp
  next
    case (Cons a cs)
    show ?case
    proof (cases "c = a")
      case True
      from Cons.prems(1) have "distinct (map nodeId (nodes a))" by simp
      with True show ?thesis by (cases a) simp
    next
      case False
      with Cons show ?thesis by simp
    qed
  qed
qed

lemma diffChildren_equal_lists:
  "news = olds \<Longrightarrow> distinct (map nodeId (concat (map nodes olds))) \<Longrightarrow>
     diffChildren parent olds news = []"
proof (induction parent olds news rule: diffChildren.induct)
  case (1 parent cs news)
  note d = distinct_children [OF "1.prems"(2)]
  note [simp] = "1.prems"(1)
  have stay: "staying 0 cs cs = map nodeId cs"
    using staying_same [of "[]" cs] d(1) by simp
  have found: "childAt (nodeId c) 0 cs \<noteq> None" if "c \<in> set cs" for c
    using childAt_member [OF d(1) that] by auto
  have rem: "removals parent cs (staying 0 cs cs) 0 cs = []"
    by (rule removals_none) (simp add: stay found)
  have ins: "insertions parent cs (staying 0 cs cs) 0 cs = []"
    by (rule insertions_none) (simp add: stay found)
  have upd: "(case childAt (nodeId c) 0 cs of
                None \<Rightarrow> []
              | Some (j, new) \<Rightarrow>
                  diffChildren (snapshot c) (subtrees c) (subtrees new)
                  @ (if nodeProps c \<noteq> nodeProps new
                        \<or> map nodeId (subtrees c) \<noteq> map nodeId (subtrees new)
                     then [UpdateInstr parent (snapshot c) (snapshot new) j]
                     else [])) = []" if "c \<in> set cs" for c
  proof -
    from childAt_member [OF d(1) that] obtain j where j: "childAt (nodeId c) 0 cs = Some (j, c)"
      by blast
    then have j': "childAt (nodeId c) 0 news = Some (j, c)" by simp
    from "1.IH" [OF that j' refl refl d(2) [OF that]] j show ?thesis by simp
  qed
  show ?case
    by (subst diffChildren.simps) (simp add: rem ins upd del: diffChildren.simps)
qed

lemma find_distinct:
  "distinct (map f xs) \<Longrightarrow> x \<in> set xs \<Longrightarrow> find (\<lambda>y. f y = f x) xs = Some x"
  by (induction xs) (auto simp add: image_iff)

lemma typeMismatch_same: "wellFormed tree \<Longrightarrow> \<not> typeMismatch tree tree"
  by (auto simp add: typeMismatch_def wellFormed_def lookup_def list_ex_iff find_distinct
      snapshot_def split: option.splits)

text \<open>
  C3. For every well-formed tree \<open>T\<close>, \<open>diff T T\<close> returns the empty instruction
  list.
\<close>

theorem diff_same_is_empty: "wellFormed tree \<Longrightarrow> diff tree tree = Inr []"
proof -
  assume wf: "wellFormed tree"
  then have "distinct (map nodeId (concat (map nodes (subtrees tree))))"
    by (cases tree) (simp add: wellFormed_def)
  from diffChildren_equal_lists [OF refl this] wf typeMismatch_same [OF wf] show ?thesis
    by (simp add: diff_def)
qed

theorem diff_same_is_empty_witness:
  "wellFormed (ViewNode 0 ''Root'' ''r''
       [ViewNode 1 ''View'' ''x'' [ViewNode 3 ''Text'' ''t'' []], ViewNode 2 ''View'' ''y'' []])
   \<and> diff (ViewNode 0 ''Root'' ''r''
       [ViewNode 1 ''View'' ''x'' [ViewNode 3 ''Text'' ''t'' []], ViewNode 2 ''View'' ''y'' []])
      (ViewNode 0 ''Root'' ''r''
       [ViewNode 1 ''View'' ''x'' [ViewNode 3 ''Text'' ''t'' []], ViewNode 2 ''View'' ''y'' []])
     = (Inr [] :: DiffError + (string, string) MutationInstruction list)"
proof -
  have wf: "wellFormed (ViewNode 0 ''Root'' ''r''
       [ViewNode 1 ''View'' ''x'' [ViewNode 3 ''Text'' ''t'' []], ViewNode 2 ''View'' ''y'' []])"
    by (simp add: wellFormed_def)
  from wf diff_same_is_empty [OF wf] show ?thesis by simp
qed

end
